theory Spec2Isabelle
  imports Complex_Main "HOL-Library.Word"
begin

section \<open>The ticket machine of 13.2/main.go\<close>

text \<open>
  The program is a state pattern: a \<open>TicketMachine\<close> struct holds a \<open>State\<close> interface
  value, and each of its four methods forwards to the method of the same name of the
  current state, which reads and writes the machine's fields through the pointer
  \<open>m\<close>. The five implementations of the interface are empty structs, so a state is
  nothing but its dynamic type: a datatype with five constructors. A method that
  mutates \<open>m\<close> and returns an \<open>error\<close> becomes a function from the machine to the pair of
  the returned error and the machine afterwards.

  \<^item> \<open>error\<close>: \<open>nil\<close> is \<open>None\<close>, and \<open>errors.New(s)\<close> is \<open>Some s\<close>; the source has no
    error kinds, only messages.
  \<^item> \<open>float64\<close>: the type variable \<open>'f\<close>. The methods use three things of it only, its
    \<open>+\<close>, its \<open>>=\<close> and its zero value, and the sort \<open>{plus, ord, zero}\<close> assumes no law
    about them, so what is proved of the methods holds for the addition and
    comparison of IEEE doubles as well, rounding, infinities and NaN included.
    \<open>NewTicketMachine\<close> and the scenarios contain literals; they are stated over
    \<open>real\<close>. Every amount that occurs in them is an integer below \<open>2 ^ 53\<close>, as is
    every sum formed, so float64 computes the same values there. What is proved of
    arbitrary sequences of calls is proved of every machine that starts as a new
    one does, for every type of amounts.
  \<^item> \<open>int\<close>: a 64-bit word read as two's complement (\<open>sint\<close>); \<open>--\<close> wraps.
  \<^item> \<open>map[string]T\<close>: a partial map; indexing a key that is absent reads the zero
    value of \<open>T\<close>, and \<open>m[k]--\<close> stores the decremented reading under \<open>k\<close>.
    The maps of a machine are allocated (\<open>NewTicketMachine\<close> makes them and no
    method assigns the fields), and so is its state.
  \<^item> \<open>fmt.Printf\<close> and \<open>fmt.Println\<close> write to standard output and touch no field of
    the machine; the lines they print are not part of the model.
\<close>

subsection \<open>Data\<close>

datatype State =
    IdleState
  | WaitingForMoneyState
  | MoneyReceivedState
  | TicketDispensedState
  | TransactionCanceledState

type_synonym go_int = "64 word"

type_synonym error = "string option"

record 'f TicketMachine =
  State :: State
  CurrentTicket :: string
  CurrentPrice :: 'f
  InsertedMoney :: 'f
  Inventory :: "string \<rightharpoonup> go_int"
  TicketPrices :: "string \<rightharpoonup> 'f"

text \<open>Go's map index expression \<open>m[k]\<close>: the zero value for a missing key.\<close>

definition index :: "('k \<rightharpoonup> 'v::zero) \<Rightarrow> 'k \<Rightarrow> 'v" where
  "index mp k = (case mp k of None \<Rightarrow> 0 | Some v \<Rightarrow> v)"

subsection \<open>The machine's helpers\<close>

definition SetState :: "'f TicketMachine \<Rightarrow> State \<Rightarrow> 'f TicketMachine" where
  "SetState m s = m\<lparr>State := s\<rparr>"

definition GetTicketPrice :: "('f::zero) TicketMachine \<Rightarrow> string \<Rightarrow> 'f" where
  "GetTicketPrice m ticketType = index (TicketPrices m) ticketType"

definition HasTicket :: "'f TicketMachine \<Rightarrow> string \<Rightarrow> bool" where
  "HasTicket m ticketType \<longleftrightarrow> 0 < sint (index (Inventory m) ticketType)"

subsection \<open>The methods of the five states\<close>

text \<open>
  One function per method of the interface, one equation per implementation, in the
  order of the source; the first argument is the receiver.
\<close>

fun State_SelectTicket ::
  "State \<Rightarrow> ('f::{plus,ord,zero}) TicketMachine \<Rightarrow> string \<Rightarrow> error \<times> 'f TicketMachine" where
  "State_SelectTicket IdleState m ticketType =
     (if \<not> HasTicket m ticketType then (Some ''ticket unavailable'', m)
      else
        let m1 = m\<lparr>CurrentTicket := ticketType\<rparr>;
            m2 = m1\<lparr>CurrentPrice := GetTicketPrice m1 ticketType\<rparr>;
            m3 = SetState m2 WaitingForMoneyState
        in (None, m3))"
| "State_SelectTicket WaitingForMoneyState m ticketType =
     (Some ''ticket already selected'', m)"
| "State_SelectTicket MoneyReceivedState m ticketType =
     (Some ''ticket already selected'', m)"
| "State_SelectTicket TicketDispensedState m ticketType =
     (Some ''please take your ticket and start over'', m)"
| "State_SelectTicket TransactionCanceledState m ticketType =
     (Some ''transaction canceled. Please start over'', m)"

fun State_InsertMoney ::
  "State \<Rightarrow> ('f::{plus,ord,zero}) TicketMachine \<Rightarrow> 'f \<Rightarrow> error \<times> 'f TicketMachine" where
  "State_InsertMoney IdleState m amount =
     (Some ''please select a ticket first'', m)"
| "State_InsertMoney WaitingForMoneyState m amount =
     (let m1 = m\<lparr>InsertedMoney := InsertedMoney m + amount\<rparr>;
          m2 = (if InsertedMoney m1 \<ge> CurrentPrice m1
                then SetState m1 MoneyReceivedState else m1)
      in (None, m2))"
| "State_InsertMoney MoneyReceivedState m amount =
     (None, m\<lparr>InsertedMoney := InsertedMoney m + amount\<rparr>)"
| "State_InsertMoney TicketDispensedState m amount =
     (Some ''please take your ticket'', m)"
| "State_InsertMoney TransactionCanceledState m amount =
     (Some ''transaction canceled'', m)"

fun State_Cancel ::
  "State \<Rightarrow> ('f::{plus,ord,zero}) TicketMachine \<Rightarrow> error \<times> 'f TicketMachine" where
  "State_Cancel IdleState m = (Some ''no active transaction'', m)"
| "State_Cancel WaitingForMoneyState m = (None, SetState m TransactionCanceledState)"
| "State_Cancel MoneyReceivedState m = (None, SetState m TransactionCanceledState)"
| "State_Cancel TicketDispensedState m = (Some ''transaction complete'', m)"
| "State_Cancel TransactionCanceledState m = (Some ''already canceled'', m)"

fun State_DispenseTicket ::
  "State \<Rightarrow> ('f::{plus,ord,zero}) TicketMachine \<Rightarrow> error \<times> 'f TicketMachine" where
  "State_DispenseTicket IdleState m = (Some ''no paid ticket'', m)"
| "State_DispenseTicket WaitingForMoneyState m = (Some ''insufficient funds'', m)"
| "State_DispenseTicket MoneyReceivedState m =
     (let m1 = SetState m TicketDispensedState;
          m2 = m1\<lparr>Inventory := (Inventory m1)
                  (CurrentTicket m1 \<mapsto> index (Inventory m1) (CurrentTicket m1) - 1)\<rparr>;
          m3 = m2\<lparr>InsertedMoney := 0\<rparr>;
          m4 = m3\<lparr>CurrentTicket := ''''\<rparr>
      in (None, m4))"
| "State_DispenseTicket TicketDispensedState m = (Some ''ticket already dispensed'', m)"
| "State_DispenseTicket TransactionCanceledState m = (Some ''no ticket'', m)"

fun State_Name :: "State \<Rightarrow> string" where
  "State_Name IdleState = ''Idle''"
| "State_Name WaitingForMoneyState = ''WaitingForMoney''"
| "State_Name MoneyReceivedState = ''MoneyReceived''"
| "State_Name TicketDispensedState = ''TicketDispensed''"
| "State_Name TransactionCanceledState = ''TransactionCanceled''"

subsection \<open>The machine\<close>

definition NewTicketMachine :: "real TicketMachine" where
  "NewTicketMachine =
     \<lparr>State = IdleState,
      CurrentTicket = '''',
      CurrentPrice = 0,
      InsertedMoney = 0,
      Inventory = [''metro'' \<mapsto> 10, ''bus'' \<mapsto> 15, ''train'' \<mapsto> 5],
      TicketPrices = [''metro'' \<mapsto> 300, ''bus'' \<mapsto> 250, ''train'' \<mapsto> 1000]\<rparr>"

definition GetCurrentState :: "'f TicketMachine \<Rightarrow> string" where
  "GetCurrentState m = State_Name (State m)"

definition SelectTicket ::
  "('f::{plus,ord,zero}) TicketMachine \<Rightarrow> string \<Rightarrow> error \<times> 'f TicketMachine" where
  "SelectTicket m ticketType = State_SelectTicket (State m) m ticketType"

definition InsertMoney ::
  "('f::{plus,ord,zero}) TicketMachine \<Rightarrow> 'f \<Rightarrow> error \<times> 'f TicketMachine" where
  "InsertMoney m amount = State_InsertMoney (State m) m amount"

definition Cancel :: "('f::{plus,ord,zero}) TicketMachine \<Rightarrow> error \<times> 'f TicketMachine" where
  "Cancel m = State_Cancel (State m) m"

definition DispenseTicket ::
  "('f::{plus,ord,zero}) TicketMachine \<Rightarrow> error \<times> 'f TicketMachine" where
  "DispenseTicket m = State_DispenseTicket (State m) m"

subsection \<open>Sequences of calls\<close>

text \<open>
  A caller holds one machine and calls its methods one after the other, whatever they
  return: \<open>main\<close> does so three times. A call is a value of \<open>Call\<close>, \<open>call\<close> performs
  one, and \<open>run\<close> performs a list of them from left to right and gives the machine
  at the end.
\<close>

datatype 'f Call =
    CallSelectTicket string
  | CallInsertMoney 'f
  | CallCancel
  | CallDispenseTicket

fun call :: "('f::{plus,ord,zero}) TicketMachine \<Rightarrow> 'f Call \<Rightarrow> error \<times> 'f TicketMachine" where
  "call m (CallSelectTicket ticketType) = SelectTicket m ticketType"
| "call m (CallInsertMoney amount) = InsertMoney m amount"
| "call m CallCancel = Cancel m"
| "call m CallDispenseTicket = DispenseTicket m"

fun run :: "('f::{plus,ord,zero}) TicketMachine \<Rightarrow> 'f Call list \<Rightarrow> 'f TicketMachine" where
  "run m [] = m"
| "run m (c # cs) = run (snd (call m c)) cs"

text \<open>
  What the caller has seen: \<open>call_log m cs\<close> pairs every call of the run with the error
  it returned. A call \<open>c\<close> of the run succeeded when \<open>(c, None)\<close> is in the log.
\<close>

fun call_log :: "('f::{plus,ord,zero}) TicketMachine \<Rightarrow> 'f Call list \<Rightarrow> ('f Call \<times> error) list" where
  "call_log m [] = []"
| "call_log m (c # cs) = (c, fst (call m c)) # call_log (snd (call m c)) cs"

subsection \<open>The errors that the specification names\<close>

text \<open>
  The source tells its errors apart by their messages. The specification names them
  instead; the four names below are the ones used further down, each bound to the
  message it stands for: \<open>NoSelection\<close> is what \<open>InsertMoney\<close> returns when no ticket
  has been selected, \<open>AlreadyCanceled\<close> what \<open>Cancel\<close> returns after a cancellation,
  and the other two are the messages with the same wording (a product of the
  specification is a ticket of the source).
\<close>

definition NoSelection :: string where
  "NoSelection = ''please select a ticket first''"

definition AlreadyCanceled :: string where
  "AlreadyCanceled = ''already canceled''"

definition InsufficientFunds :: string where
  "InsufficientFunds = ''insufficient funds''"

definition NoPaidProduct :: string where
  "NoPaidProduct = ''no paid ticket''"

subsection \<open>What holds along a run\<close>

text \<open>
  \<open>transaction_inv m l\<close> relates a machine to the log of the calls that led to it:
  no count is negative; an idle machine has seen no successful selection; while a
  ticket is selected (waiting for money, or money received) its count is positive
  and the successful selections of the log are exactly that ticket; and the log
  holds one successful dispense when the ticket has been dispensed, none before.
\<close>

definition transaction_inv ::
  "('f::{plus,ord,zero}) TicketMachine \<Rightarrow> ('f Call \<times> error) list \<Rightarrow> bool" where
  "transaction_inv m l \<longleftrightarrow>
     (\<forall>p. 0 \<le> sint (index (Inventory m) p)) \<and>
     (State m = IdleState \<longrightarrow> (\<forall>t. (CallSelectTicket t, None) \<notin> set l)) \<and>
     (State m = WaitingForMoneyState \<or> State m = MoneyReceivedState \<longrightarrow>
        0 < sint (index (Inventory m) (CurrentTicket m)) \<and>
        (\<forall>t. (CallSelectTicket t, None) \<in> set l \<longleftrightarrow> t = CurrentTicket m)) \<and>
     count_list l (CallDispenseTicket, None) =
       (if State m = TicketDispensedState then 1 else 0)"

section \<open>Basic facts\<close>

lemmas tm_defs = SelectTicket_def InsertMoney_def Cancel_def DispenseTicket_def
  SetState_def GetTicketPrice_def HasTicket_def GetCurrentState_def

lemma index_upd: "index (mp(k \<mapsto> v)) k' = (if k' = k then v else index mp k')"
  by (simp add: index_def)

text \<open>
  Go's \<open>--\<close> on a count: the integer read goes down by one, unless the count is the
  least \<open>int\<close>, where it wraps. A positive count is far from there.
\<close>

lemma sint_dec_no_wrap:
  fixes x :: go_int
  assumes "- (2 ^ 63) < sint x"
  shows "sint (x - 1) = sint x - 1"
proof -
  have ub: "sint x < 2 ^ 63"
    using sint_lt [of x] by simp
  have "sint (x - 1) = signed_take_bit 63 (sint x - 1)"
    by (simp add: sint_word_ariths)
  also have "\<dots> = sint x - 1"
    using assms ub by (intro signed_take_bit_int_eq_self) simp_all
  finally show ?thesis .
qed

lemma sint_dec:
  fixes x :: go_int
  assumes "0 < sint x"
  shows "sint (x - 1) = sint x - 1"
  using assms by (intro sint_dec_no_wrap) simp

lemma run_append: "run m (cs @ ds) = run (run m cs) ds"
  by (induction cs arbitrary: m) simp_all

lemma call_log_append: "call_log m (cs @ ds) = call_log m cs @ call_log (run m cs) ds"
  by (induction cs arbitrary: m) simp_all

lemma count_list_snoc:
  "count_list (l @ [x]) y = count_list l y + (if x = y then 1 else 0)"
  by (induction l) simp_all

subsection \<open>The two final states\<close>

lemma terminal_call:
  assumes "State m = TicketDispensedState \<or> State m = TransactionCanceledState"
  shows "fst (call m c) \<noteq> None" and "snd (call m c) = m"
  using assms by (cases c; auto simp add: tm_defs)+

lemma terminal_run:
  "State m = TicketDispensedState \<or> State m = TransactionCanceledState \<Longrightarrow> run m cs = m"
  by (induction cs) (simp_all add: terminal_call)

subsection \<open>The invariant of a run\<close>

text \<open>
  Every call keeps \<open>transaction_inv\<close>, whatever the type of the amounts and whatever
  the amounts inserted: no step of the proof looks at \<open>InsertedMoney\<close> or at
  \<open>CurrentPrice\<close>.
\<close>

lemma inv_call:
  assumes "transaction_inv m l"
  shows "transaction_inv (snd (call m c)) (l @ [(c, fst (call m c))])"
proof (cases c)
  case (CallSelectTicket t)
  then show ?thesis using assms
    by (cases "State m")
       (auto simp add: transaction_inv_def tm_defs Let_def count_list_snoc)
next
  case (CallInsertMoney a)
  then show ?thesis using assms
    by (cases "State m")
       (auto simp add: transaction_inv_def tm_defs Let_def count_list_snoc)
next
  case CallCancel
  then show ?thesis using assms
    by (cases "State m")
       (auto simp add: transaction_inv_def tm_defs Let_def count_list_snoc)
next
  case CallDispenseTicket
  show ?thesis
  proof (cases "State m")
    case MoneyReceivedState
    with assms have pos: "0 < sint (index (Inventory m) (CurrentTicket m))"
      and nn: "\<And>p. 0 \<le> sint (index (Inventory m) p)"
      and cnt: "count_list l (CallDispenseTicket, None) = 0"
      by (simp_all add: transaction_inv_def)
    from pos have "sint (index (Inventory m) (CurrentTicket m) - 1)
        = sint (index (Inventory m) (CurrentTicket m)) - 1"
      by (rule sint_dec)
    with pos nn cnt MoneyReceivedState CallDispenseTicket show ?thesis
      by (simp add: transaction_inv_def tm_defs Let_def count_list_snoc index_upd)
  qed (use assms CallDispenseTicket in
        \<open>auto simp add: transaction_inv_def tm_defs Let_def count_list_snoc\<close>)
qed

lemma inv_run:
  assumes "transaction_inv m []"
  shows "transaction_inv (run m cs) (call_log m cs)"
proof (induction cs rule: rev_induct)
  case Nil
  then show ?case using assms by simp
next
  case (snoc c cs)
  then show ?case using inv_call [of "run m cs" "call_log m cs" c]
    by (simp add: run_append call_log_append)
qed

lemma inv_fresh:
  fixes m0 :: "('f::{plus,ord,zero}) TicketMachine"
  assumes "State m0 = IdleState" and "Inventory m0 = Inventory NewTicketMachine"
  shows "transaction_inv (run m0 cs) (call_log m0 cs)"
proof -
  have "transaction_inv m0 []"
    using assms by (simp add: transaction_inv_def NewTicketMachine_def index_def)
  then show ?thesis by (rule inv_run)
qed

text \<open>What one call does to the inventory, and to the reading of one count.\<close>

lemma call_Inventory_map:
  "Inventory (snd (call m c)) =
     (if c = CallDispenseTicket \<and> State m = MoneyReceivedState
      then (Inventory m)(CurrentTicket m \<mapsto> index (Inventory m) (CurrentTicket m) - 1)
      else Inventory m)"
  by (cases c; cases "State m") (simp_all add: tm_defs Let_def)

lemma call_Inventory:
  "index (Inventory (snd (call m c))) p =
     (if c = CallDispenseTicket \<and> State m = MoneyReceivedState \<and> p = CurrentTicket m
      then index (Inventory m) p - 1 else index (Inventory m) p)"
  by (cases c; cases "State m") (simp_all add: tm_defs Let_def index_upd)

section \<open>The claims\<close>

subsection \<open>Dispensing a paid ticket\<close>

text \<open>
  Claim C1. For every machine in the MoneyReceived state, \<open>DispenseTicket\<close> returns
  \<open>nil\<close> and leaves the machine in the TicketDispensed state, with the count of the
  selected ticket decremented by one (Go's \<open>--\<close> on the count read for that key),
  \<open>InsertedMoney\<close> set to 0 and \<open>CurrentTicket\<close> set to the empty string; every other
  field and every other count is as before. Read as an integer the count goes down
  by exactly one, the least \<open>int\<close> apart, where \<open>--\<close> wraps (by C9 no run from a new
  machine gets there). In particular, on a new machine
  \<open>SelectTicket("metro")\<close> (price 300), \<open>InsertMoney(300)\<close> and \<open>DispenseTicket()\<close> all
  return \<open>nil\<close> and leave 9 metro tickets where there were 10, in the TicketDispensed
  state.
\<close>

theorem DispenseTicket_MoneyReceived:
  fixes m :: "('f::{plus,ord,zero}) TicketMachine"
  shows "(State m = MoneyReceivedState \<longrightarrow>
       DispenseTicket m =
         (None, m\<lparr>State := TicketDispensedState,
                   Inventory := (Inventory m)
                     (CurrentTicket m \<mapsto> index (Inventory m) (CurrentTicket m) - 1),
                   InsertedMoney := 0,
                   CurrentTicket := ''''\<rparr>)) \<and>
     (State m = MoneyReceivedState \<and>
      - (2 ^ 63) < sint (index (Inventory m) (CurrentTicket m)) \<longrightarrow>
       sint (index (Inventory (snd (DispenseTicket m))) (CurrentTicket m))
         = sint (index (Inventory m) (CurrentTicket m)) - 1) \<and>
     (case SelectTicket NewTicketMachine ''metro'' of (e1, m1) \<Rightarrow>
      case InsertMoney m1 300 of (e2, m2) \<Rightarrow>
      case DispenseTicket m2 of (e3, m3) \<Rightarrow>
        e1 = None \<and> CurrentPrice m1 = 300 \<and>
        e2 = None \<and> State m2 = MoneyReceivedState \<and>
        index (Inventory m2) ''metro'' = 10 \<and>
        e3 = None \<and> index (Inventory m3) ''metro'' = 9 \<and>
        State m3 = TicketDispensedState)"
proof -
  have "sint (index (Inventory (snd (DispenseTicket m))) (CurrentTicket m))
      = sint (index (Inventory m) (CurrentTicket m)) - 1"
    if "State m = MoneyReceivedState"
      and "- (2 ^ 63) < sint (index (Inventory m) (CurrentTicket m))"
    using that sint_dec_no_wrap [of "index (Inventory m) (CurrentTicket m)"]
    by (simp add: tm_defs Let_def index_upd)
  then show ?thesis
    by (simp add: tm_defs index_def NewTicketMachine_def Let_def)
qed

text \<open>The same on a bus ticket, paid exactly: 14 of 15 are left.\<close>

theorem DispenseTicket_MoneyReceived_witness:
  "State (run NewTicketMachine [CallSelectTicket ''bus'', CallInsertMoney 250])
     = MoneyReceivedState \<and>
   fst (DispenseTicket (run NewTicketMachine [CallSelectTicket ''bus'', CallInsertMoney 250]))
     = None \<and>
   State (snd (DispenseTicket
       (run NewTicketMachine [CallSelectTicket ''bus'', CallInsertMoney 250])))
     = TicketDispensedState \<and>
   Inventory (snd (DispenseTicket
       (run NewTicketMachine [CallSelectTicket ''bus'', CallInsertMoney 250])))
     = [''metro'' \<mapsto> 10, ''bus'' \<mapsto> 14, ''train'' \<mapsto> 5] \<and>
   - (2 ^ 63) < sint (index
       (Inventory (run NewTicketMachine [CallSelectTicket ''bus'', CallInsertMoney 250]))
       (CurrentTicket (run NewTicketMachine [CallSelectTicket ''bus'', CallInsertMoney 250]))) \<and>
   sint (index
       (Inventory (snd (DispenseTicket
          (run NewTicketMachine [CallSelectTicket ''bus'', CallInsertMoney 250]))))
       (CurrentTicket (run NewTicketMachine [CallSelectTicket ''bus'', CallInsertMoney 250])))
     = 15 - 1"
proof -
  let ?m = "run NewTicketMachine [CallSelectTicket ''bus'', CallInsertMoney 250]"
  have h: "State ?m = MoneyReceivedState"
    by (simp add: tm_defs index_def NewTicketMachine_def Let_def)
  have i: "Inventory ?m = [''metro'' \<mapsto> 10, ''bus'' \<mapsto> 15, ''train'' \<mapsto> 5]"
    and t: "CurrentTicket ?m = ''bus''"
    by (simp_all add: tm_defs index_def NewTicketMachine_def Let_def)
  have n: "sint (index (Inventory ?m) (CurrentTicket ?m)) = 15"
    unfolding i t by (simp add: index_def)
  then have b: "- (2 ^ 63) < sint (index (Inventory ?m) (CurrentTicket ?m))"
    by simp
  from DispenseTicket_MoneyReceived [of ?m] h
  have "DispenseTicket ?m =
         (None, ?m\<lparr>State := TicketDispensedState,
                   Inventory := (Inventory ?m)
                     (CurrentTicket ?m \<mapsto> index (Inventory ?m) (CurrentTicket ?m) - 1),
                   InsertedMoney := 0,
                   CurrentTicket := ''''\<rparr>)"
    by blast
  with h i t have first: "State ?m = MoneyReceivedState \<and>
      fst (DispenseTicket ?m) = None \<and>
      State (snd (DispenseTicket ?m)) = TicketDispensedState \<and>
      Inventory (snd (DispenseTicket ?m))
        = [''metro'' \<mapsto> 10, ''bus'' \<mapsto> 14, ''train'' \<mapsto> 5]"
    by (auto simp add: index_def)
  from DispenseTicket_MoneyReceived [of ?m] h b
  have "sint (index (Inventory (snd (DispenseTicket ?m))) (CurrentTicket ?m))
         = sint (index (Inventory ?m) (CurrentTicket ?m)) - 1"
    by blast
  with n have "sint (index (Inventory (snd (DispenseTicket ?m))) (CurrentTicket ?m)) = 15 - 1"
    by (simp only:)
  with first b show ?thesis
    by blast
qed

subsection \<open>Errors change nothing\<close>

text \<open>
  Claim C2. Whenever one of the four methods returns an error, the machine is what it
  was before the call: state, selected ticket, price, inserted money, inventory and
  price table. This holds for every machine, so for every one that a run reaches.
\<close>

theorem error_leaves_machine_unchanged:
  fixes m :: "('f::{plus,ord,zero}) TicketMachine"
  shows "(fst (SelectTicket m ticketType) \<noteq> None \<longrightarrow> snd (SelectTicket m ticketType) = m) \<and>
     (fst (InsertMoney m amount) \<noteq> None \<longrightarrow> snd (InsertMoney m amount) = m) \<and>
     (fst (Cancel m) \<noteq> None \<longrightarrow> snd (Cancel m) = m) \<and>
     (fst (DispenseTicket m) \<noteq> None \<longrightarrow> snd (DispenseTicket m) = m)"
  by (cases "State m") (simp_all add: tm_defs Let_def)

text \<open>
  On a new machine: a ticket type that is not sold cannot be selected, and the other
  three calls are refused before a selection.
\<close>

theorem error_leaves_machine_unchanged_witness:
  "fst (SelectTicket NewTicketMachine ''tram'') \<noteq> None \<and>
   snd (SelectTicket NewTicketMachine ''tram'') = NewTicketMachine \<and>
   fst (InsertMoney NewTicketMachine 300) \<noteq> None \<and>
   snd (InsertMoney NewTicketMachine 300) = NewTicketMachine \<and>
   fst (Cancel NewTicketMachine) \<noteq> None \<and>
   snd (Cancel NewTicketMachine) = NewTicketMachine \<and>
   fst (DispenseTicket NewTicketMachine) \<noteq> None \<and>
   snd (DispenseTicket NewTicketMachine) = NewTicketMachine"
proof -
  have h1: "fst (SelectTicket NewTicketMachine ''tram'') \<noteq> None"
    by (simp add: tm_defs index_def NewTicketMachine_def)
  have h2: "fst (InsertMoney NewTicketMachine 300) \<noteq> None"
    by (simp add: tm_defs NewTicketMachine_def)
  have h3: "fst (Cancel NewTicketMachine) \<noteq> None"
    by (simp add: tm_defs NewTicketMachine_def)
  have h4: "fst (DispenseTicket NewTicketMachine) \<noteq> None"
    by (simp add: tm_defs NewTicketMachine_def)
  show ?thesis
    using h1 h2 h3 h4
      error_leaves_machine_unchanged [of NewTicketMachine "''tram''" 300]
    by blast
qed

subsection \<open>Dispensed and canceled machines\<close>

text \<open>
  Claim C4. TicketDispensed and TransactionCanceled are absorbing: in either state
  each of the four methods returns an error and leaves the machine as it is, so that
  no run changes the machine, its state in particular. And from WaitingForMoney or
  MoneyReceived, a first \<open>Cancel\<close> returns \<open>nil\<close> and a second one the error
  "already canceled", the state being TransactionCanceled after each.
\<close>

theorem terminal_states_absorbing:
  fixes m m' :: "('f::{plus,ord,zero}) TicketMachine"
  shows "(State m = TicketDispensedState \<or> State m = TransactionCanceledState \<longrightarrow>
       fst (SelectTicket m ticketType) \<noteq> None \<and> snd (SelectTicket m ticketType) = m \<and>
       fst (InsertMoney m amount) \<noteq> None \<and> snd (InsertMoney m amount) = m \<and>
       fst (Cancel m) \<noteq> None \<and> snd (Cancel m) = m \<and>
       fst (DispenseTicket m) \<noteq> None \<and> snd (DispenseTicket m) = m \<and>
       run m cs = m \<and> State (run m cs) = State m) \<and>
     (State m' = WaitingForMoneyState \<or> State m' = MoneyReceivedState \<longrightarrow>
       (case Cancel m' of (e1, m1) \<Rightarrow>
        case Cancel m1 of (e2, m2) \<Rightarrow>
          e1 = None \<and> State m1 = TransactionCanceledState \<and>
          e2 = Some AlreadyCanceled \<and> State m2 = TransactionCanceledState))"
proof -
  have "run m cs = m"
    if "State m = TicketDispensedState \<or> State m = TransactionCanceledState"
    using that by (rule terminal_run)
  moreover have "fst (SelectTicket m ticketType) \<noteq> None \<and> snd (SelectTicket m ticketType) = m \<and>
       fst (InsertMoney m amount) \<noteq> None \<and> snd (InsertMoney m amount) = m \<and>
       fst (Cancel m) \<noteq> None \<and> snd (Cancel m) = m \<and>
       fst (DispenseTicket m) \<noteq> None \<and> snd (DispenseTicket m) = m"
    if "State m = TicketDispensedState \<or> State m = TransactionCanceledState"
    using that by (auto simp add: tm_defs)
  moreover have "case Cancel m' of (e1, m1) \<Rightarrow>
        case Cancel m1 of (e2, m2) \<Rightarrow>
          e1 = None \<and> State m1 = TransactionCanceledState \<and>
          e2 = Some AlreadyCanceled \<and> State m2 = TransactionCanceledState"
    if "State m' = WaitingForMoneyState \<or> State m' = MoneyReceivedState"
    using that by (auto simp add: tm_defs AlreadyCanceled_def)
  ultimately show ?thesis by simp
qed

text \<open>
  After a dispense and after a cancellation, a further attempt to buy changes
  nothing; and a ticket that is selected can be cancelled once.
\<close>

theorem terminal_states_absorbing_witness:
  "State (run NewTicketMachine
      [CallSelectTicket ''metro'', CallInsertMoney 300, CallDispenseTicket])
     = TicketDispensedState \<and>
   run (run NewTicketMachine
         [CallSelectTicket ''metro'', CallInsertMoney 300, CallDispenseTicket])
       [CallSelectTicket ''bus'', CallInsertMoney 250, CallCancel, CallDispenseTicket]
     = run NewTicketMachine
         [CallSelectTicket ''metro'', CallInsertMoney 300, CallDispenseTicket] \<and>
   State (run NewTicketMachine [CallSelectTicket ''bus'', CallCancel])
     = TransactionCanceledState \<and>
   fst (DispenseTicket (run NewTicketMachine [CallSelectTicket ''bus'', CallCancel]))
     \<noteq> None \<and>
   State (run NewTicketMachine [CallSelectTicket ''bus''])
     = WaitingForMoneyState \<and>
   fst (Cancel (snd (Cancel (run NewTicketMachine [CallSelectTicket ''bus'']))))
     = Some AlreadyCanceled"
proof -
  let ?d = "run NewTicketMachine
      [CallSelectTicket ''metro'', CallInsertMoney 300, CallDispenseTicket]"
  let ?c = "run NewTicketMachine [CallSelectTicket ''bus'', CallCancel]"
  let ?w = "run NewTicketMachine [CallSelectTicket ''bus'']"
  have d: "State ?d = TicketDispensedState"
    by (simp add: tm_defs index_def NewTicketMachine_def Let_def)
  have c: "State ?c = TransactionCanceledState"
    by (simp add: tm_defs index_def NewTicketMachine_def Let_def)
  have w: "State ?w = WaitingForMoneyState"
    by (simp add: tm_defs index_def NewTicketMachine_def Let_def)
  note absorbing_d = terminal_states_absorbing [of ?d "''bus''" 250
      "[CallSelectTicket ''bus'', CallInsertMoney 250, CallCancel, CallDispenseTicket]" ?w]
  note absorbing_c = terminal_states_absorbing [of ?c "''bus''" 250 "[]" ?w]
  from d absorbing_d
  have "run ?d [CallSelectTicket ''bus'', CallInsertMoney 250, CallCancel, CallDispenseTicket]
      = ?d"
    by blast
  moreover from c absorbing_c
  have "fst (DispenseTicket ?c) \<noteq> None"
    by blast
  moreover have "case Cancel ?w of (e1, m1) \<Rightarrow>
        case Cancel m1 of (e2, m2) \<Rightarrow>
          e1 = None \<and> State m1 = TransactionCanceledState \<and>
          e2 = Some AlreadyCanceled \<and> State m2 = TransactionCanceledState"
    by (rule absorbing_c [THEN conjunct2, THEN mp, OF disjI1 [OF w]])
  then have "fst (Cancel (snd (Cancel ?w))) = Some AlreadyCanceled"
    by (simp only: case_prod_beta)
  ultimately show ?thesis
    using d c w by blast
qed

subsection \<open>Paying\<close>

text \<open>
  Claim C5. For every machine in the WaitingForMoney state and every amount,
  \<open>InsertMoney\<close> returns \<open>nil\<close> and adds the amount to \<open>InsertedMoney\<close>, whatever its
  sign; the state becomes MoneyReceived when the new \<open>InsertedMoney\<close> is at least
  \<open>CurrentPrice\<close> and stays WaitingForMoney otherwise; nothing else changes. On a new
  machine, after \<open>SelectTicket("metro")\<close> at price 300, \<open>InsertMoney(100)\<close> leaves the
  machine waiting and a further \<open>InsertMoney(250)\<close>, 350 in all, makes it
  MoneyReceived.
\<close>

theorem InsertMoney_WaitingForMoney:
  fixes m :: "('f::{plus,ord,zero}) TicketMachine"
  shows "(State m = WaitingForMoneyState \<longrightarrow>
       InsertMoney m amount =
         (None, m\<lparr>InsertedMoney := InsertedMoney m + amount,
                   State := (if InsertedMoney m + amount \<ge> CurrentPrice m
                             then MoneyReceivedState else WaitingForMoneyState)\<rparr>)) \<and>
     (case SelectTicket NewTicketMachine ''metro'' of (e1, m1) \<Rightarrow>
      case InsertMoney m1 100 of (e2, m2) \<Rightarrow>
      case InsertMoney m2 250 of (e3, m3) \<Rightarrow>
        e1 = None \<and> CurrentPrice m1 = 300 \<and> State m1 = WaitingForMoneyState \<and>
        e2 = None \<and> InsertedMoney m2 = 100 \<and> State m2 = WaitingForMoneyState \<and>
        e3 = None \<and> InsertedMoney m3 = 350 \<and> State m3 = MoneyReceivedState)"
  by (simp add: tm_defs index_def NewTicketMachine_def Let_def)

text \<open>
  A negative amount is taken like any other: 50 less than nothing is inserted for a
  train ticket, and the machine goes on waiting.
\<close>

theorem InsertMoney_WaitingForMoney_witness:
  "State (run NewTicketMachine [CallSelectTicket ''train'']) = WaitingForMoneyState \<and>
   fst (InsertMoney (run NewTicketMachine [CallSelectTicket ''train'']) (- 50)) = None \<and>
   InsertedMoney (snd (InsertMoney (run NewTicketMachine [CallSelectTicket ''train'']) (- 50)))
     = - 50 \<and>
   State (snd (InsertMoney (run NewTicketMachine [CallSelectTicket ''train'']) (- 50)))
     = WaitingForMoneyState"
proof -
  let ?m = "run NewTicketMachine [CallSelectTicket ''train'']"
  have h: "State ?m = WaitingForMoneyState"
    and p: "CurrentPrice ?m = 1000" and i: "InsertedMoney ?m = 0"
    by (simp_all add: tm_defs index_def NewTicketMachine_def Let_def)
  from h InsertMoney_WaitingForMoney [of ?m "- 50"]
  have "InsertMoney ?m (- 50) =
         (None, ?m\<lparr>InsertedMoney := InsertedMoney ?m + (- 50),
                   State := (if InsertedMoney ?m + (- 50) \<ge> CurrentPrice ?m
                             then MoneyReceivedState else WaitingForMoneyState)\<rparr>)"
    by blast
  with h p i show ?thesis by simp
qed

subsection \<open>The name of the state after a cancellation\<close>

text \<open>
  Claim C6, as stated: on a new machine, after \<open>SelectTicket("bus")\<close> and \<open>Cancel()\<close>
  have returned \<open>nil\<close>, \<open>GetCurrentState()\<close> returns the string "Canceled". The two
  calls do return \<open>nil\<close>, but the string differs.
\<close>

theorem GetCurrentState_after_Cancel_counterexample:
  "call_log NewTicketMachine [CallSelectTicket ''bus'', CallCancel]
     = [(CallSelectTicket ''bus'', None), (CallCancel, None)] \<and>
   GetCurrentState (run NewTicketMachine [CallSelectTicket ''bus'', CallCancel])
     \<noteq> ''Canceled''"
  by (simp add: tm_defs index_def NewTicketMachine_def Let_def)

text \<open>
  Claim C6, amended: on a new machine, \<open>SelectTicket("bus")\<close> and then \<open>Cancel()\<close>
  return \<open>nil\<close>, the state is then TransactionCanceled, and \<open>GetCurrentState()\<close>
  returns that state's name, the string "TransactionCanceled".
\<close>

theorem GetCurrentState_after_Cancel:
  "(case SelectTicket NewTicketMachine ''bus'' of (e1, m1) \<Rightarrow>
    case Cancel m1 of (e2, m2) \<Rightarrow>
      e1 = None \<and> e2 = None \<and> State m2 = TransactionCanceledState \<and>
      GetCurrentState m2 = ''TransactionCanceled'')"
  by (simp add: tm_defs index_def NewTicketMachine_def Let_def)

subsection \<open>Dispensing before the ticket is paid\<close>

text \<open>
  Claim C7, as stated: \<open>DispenseTicket\<close> fails with InsufficientFunds on every idle
  machine and with NoSelection on every machine that waits for money. On a new
  machine, which is idle, and on the machine that waits after \<open>SelectTicket("metro")\<close>,
  it fails with neither.
\<close>

theorem DispenseTicket_unpaid_counterexample:
  "State NewTicketMachine = IdleState \<and>
   fst (DispenseTicket NewTicketMachine) \<noteq> Some InsufficientFunds \<and>
   State (run NewTicketMachine [CallSelectTicket ''metro'']) = WaitingForMoneyState \<and>
   fst (DispenseTicket (run NewTicketMachine [CallSelectTicket ''metro'']))
     \<noteq> Some NoSelection"
  by (simp add: tm_defs index_def NewTicketMachine_def Let_def
        InsufficientFunds_def NoSelection_def)

text \<open>
  Claim C7, amended: for every idle machine \<open>DispenseTicket\<close> fails with NoPaidProduct
  ("no paid ticket"), and for every machine that waits for money it fails with
  InsufficientFunds ("insufficient funds"); the machine is unchanged in both cases.
\<close>

theorem DispenseTicket_unpaid:
  fixes m :: "('f::{plus,ord,zero}) TicketMachine"
  shows "(State m = IdleState \<longrightarrow> DispenseTicket m = (Some NoPaidProduct, m)) \<and>
     (State m = WaitingForMoneyState \<longrightarrow> DispenseTicket m = (Some InsufficientFunds, m))"
  by (simp add: tm_defs NoPaidProduct_def InsufficientFunds_def)

theorem DispenseTicket_unpaid_witness:
  "State NewTicketMachine = IdleState \<and>
   DispenseTicket NewTicketMachine = (Some ''no paid ticket'', NewTicketMachine) \<and>
   State (run NewTicketMachine [CallSelectTicket ''metro'']) = WaitingForMoneyState \<and>
   DispenseTicket (run NewTicketMachine [CallSelectTicket ''metro''])
     = (Some ''insufficient funds'', run NewTicketMachine [CallSelectTicket ''metro''])"
proof -
  let ?w = "run NewTicketMachine [CallSelectTicket ''metro'']"
  have i: "State NewTicketMachine = IdleState"
    by (simp add: NewTicketMachine_def)
  have w: "State ?w = WaitingForMoneyState"
    by (simp add: tm_defs index_def NewTicketMachine_def Let_def)
  have "DispenseTicket NewTicketMachine = (Some NoPaidProduct, NewTicketMachine)"
    by (rule DispenseTicket_unpaid [of NewTicketMachine, THEN conjunct1, THEN mp, OF i])
  moreover have "DispenseTicket ?w = (Some InsufficientFunds, ?w)"
    by (rule DispenseTicket_unpaid [of ?w, THEN conjunct2, THEN mp, OF w])
  ultimately show ?thesis
    using i w by (simp only: NoPaidProduct_def InsufficientFunds_def simp_thms)
qed

subsection \<open>Cancelling\<close>

text \<open>
  Claim C8. For every machine in the WaitingForMoney or the MoneyReceived state,
  \<open>Cancel\<close> returns \<open>nil\<close> and sets the state to TransactionCanceled, whatever has been
  inserted, and changes nothing else: \<open>InsertedMoney\<close> keeps its value, and the
  inventory, the selected ticket and its price are as before. On a new machine,
  after \<open>SelectTicket("train")\<close>, \<open>InsertMoney(1000)\<close> and \<open>Cancel()\<close> the state is
  TransactionCanceled and there are 5 train tickets still.
\<close>

theorem Cancel_changes_state_only:
  fixes m :: "('f::{plus,ord,zero}) TicketMachine"
  shows "(State m = WaitingForMoneyState \<or> State m = MoneyReceivedState \<longrightarrow>
       Cancel m = (None, m\<lparr>State := TransactionCanceledState\<rparr>)) \<and>
     (case SelectTicket NewTicketMachine ''train'' of (e1, m1) \<Rightarrow>
      case InsertMoney m1 1000 of (e2, m2) \<Rightarrow>
      case Cancel m2 of (e3, m3) \<Rightarrow>
        e1 = None \<and> e2 = None \<and> State m2 = MoneyReceivedState \<and>
        e3 = None \<and> State m3 = TransactionCanceledState \<and>
        InsertedMoney m3 = 1000 \<and> CurrentTicket m3 = ''train'' \<and>
        CurrentPrice m3 = 1000 \<and>
        Inventory m3 = Inventory NewTicketMachine \<and>
        index (Inventory m3) ''train'' = 5)"
proof -
  have "Cancel m = (None, m\<lparr>State := TransactionCanceledState\<rparr>)"
    if "State m = WaitingForMoneyState \<or> State m = MoneyReceivedState"
    using that by (auto simp add: tm_defs)
  then show ?thesis
    by (simp add: tm_defs index_def NewTicketMachine_def Let_def)
qed

text \<open>Cancelling a metro ticket of which a third is paid: the 100 stay in the machine.\<close>

theorem Cancel_changes_state_only_witness:
  "State (run NewTicketMachine [CallSelectTicket ''metro'', CallInsertMoney 100])
     = WaitingForMoneyState \<and>
   fst (Cancel (run NewTicketMachine [CallSelectTicket ''metro'', CallInsertMoney 100]))
     = None \<and>
   State (snd (Cancel
       (run NewTicketMachine [CallSelectTicket ''metro'', CallInsertMoney 100])))
     = TransactionCanceledState \<and>
   InsertedMoney (snd (Cancel
       (run NewTicketMachine [CallSelectTicket ''metro'', CallInsertMoney 100])))
     = 100 \<and>
   Inventory (snd (Cancel
       (run NewTicketMachine [CallSelectTicket ''metro'', CallInsertMoney 100])))
     = [''metro'' \<mapsto> 10, ''bus'' \<mapsto> 15, ''train'' \<mapsto> 5]"
proof -
  let ?m = "run NewTicketMachine [CallSelectTicket ''metro'', CallInsertMoney 100]"
  have h: "State ?m = WaitingForMoneyState"
    and a: "InsertedMoney ?m = 100"
    and i: "Inventory ?m = [''metro'' \<mapsto> 10, ''bus'' \<mapsto> 15, ''train'' \<mapsto> 5]"
    by (simp_all add: tm_defs index_def NewTicketMachine_def Let_def)
  have "Cancel ?m = (None, ?m\<lparr>State := TransactionCanceledState\<rparr>)"
    by (rule Cancel_changes_state_only [of ?m, THEN conjunct1, THEN mp, OF disjI1 [OF h]])
  with h a i show ?thesis by simp
qed

subsection \<open>Money taken back after the payment\<close>

text \<open>
  Claim C10. In the MoneyReceived state \<open>InsertMoney\<close> adds the amount and returns
  \<open>nil\<close> without comparing \<open>InsertedMoney\<close> with \<open>CurrentPrice\<close> again: the state stays
  MoneyReceived whatever the sum. So there is a sequence of calls on a new machine
  after which the machine is in the MoneyReceived state with less inserted than the
  price, and still dispenses: \<open>SelectTicket("metro")\<close>, \<open>InsertMoney(300)\<close>,
  \<open>InsertMoney(-100)\<close> leave 200 inserted for a price of 300, and \<open>DispenseTicket()\<close>
  then returns \<open>nil\<close> and takes a metro ticket from the inventory.
\<close>

theorem InsertMoney_MoneyReceived_no_recheck:
  fixes m :: "('f::{plus,ord,zero}) TicketMachine"
  shows "(State m = MoneyReceivedState \<longrightarrow>
       InsertMoney m amount = (None, m\<lparr>InsertedMoney := InsertedMoney m + amount\<rparr>)) \<and>
     (case SelectTicket NewTicketMachine ''metro'' of (e1, m1) \<Rightarrow>
      case InsertMoney m1 300 of (e2, m2) \<Rightarrow>
      case InsertMoney m2 (- 100) of (e3, m3) \<Rightarrow>
      case DispenseTicket m3 of (e4, m4) \<Rightarrow>
        e1 = None \<and> e2 = None \<and> e3 = None \<and>
        State m3 = MoneyReceivedState \<and>
        InsertedMoney m3 = 200 \<and> CurrentPrice m3 = 300 \<and>
        InsertedMoney m3 < CurrentPrice m3 \<and>
        index (Inventory m3) ''metro'' = 10 \<and>
        e4 = None \<and> State m4 = TicketDispensedState \<and>
        index (Inventory m4) ''metro'' = 9)"
  by (simp add: tm_defs index_def NewTicketMachine_def Let_def)

text \<open>The whole price of a bus ticket taken back: nothing is inserted, the state stays.\<close>

theorem InsertMoney_MoneyReceived_no_recheck_witness:
  "State (run NewTicketMachine [CallSelectTicket ''bus'', CallInsertMoney 250])
     = MoneyReceivedState \<and>
   fst (InsertMoney
       (run NewTicketMachine [CallSelectTicket ''bus'', CallInsertMoney 250]) (- 250))
     = None \<and>
   State (snd (InsertMoney
       (run NewTicketMachine [CallSelectTicket ''bus'', CallInsertMoney 250]) (- 250)))
     = MoneyReceivedState \<and>
   InsertedMoney (snd (InsertMoney
       (run NewTicketMachine [CallSelectTicket ''bus'', CallInsertMoney 250]) (- 250)))
     = 0"
proof -
  let ?m = "run NewTicketMachine [CallSelectTicket ''bus'', CallInsertMoney 250]"
  have h: "State ?m = MoneyReceivedState" and a: "InsertedMoney ?m = 250"
    by (simp_all add: tm_defs index_def NewTicketMachine_def Let_def)
  have "InsertMoney ?m (- 250) = (None, ?m\<lparr>InsertedMoney := InsertedMoney ?m + (- 250)\<rparr>)"
    by (rule InsertMoney_MoneyReceived_no_recheck
          [of ?m "- 250", THEN conjunct1, THEN mp, OF h])
  with h a show ?thesis by simp
qed

subsection \<open>The inventory along a run\<close>

text \<open>
  A new machine is idle and holds 10 metro, 15 bus and 5 train tickets. The two
  claims below are about every machine \<open>m0\<close> that is idle with that inventory,
  whatever type its amounts have and whatever its prices are, and about every
  sequence of calls on it: \<open>NewTicketMachine\<close> is one such machine, and so is the
  machine whose amounts are float64 values, added and compared as Go does.
\<close>

text \<open>
  Claim C3. Take any sequence of calls on a new machine, any further call and any
  ticket type \<open>p\<close>. The call does not increase the count of \<open>p\<close>, and neither does any
  further sequence of calls. If the call changes the count, then the count has gone
  down by exactly one, the call is a \<open>DispenseTicket\<close> that returned \<open>nil\<close>, a
  \<open>SelectTicket(p)\<close> has returned \<open>nil\<close> before it, and no \<open>SelectTicket\<close> of another
  ticket type has.
\<close>

theorem Inventory_decreases_by_dispense_only:
  fixes m0 :: "('f::{plus,ord,zero}) TicketMachine"
  assumes idle: "State m0 = IdleState"
    and stock: "Inventory m0 = Inventory NewTicketMachine"
  shows "let m = run m0 cs;
       r = call m c;
       before = sint (index (Inventory m) p);
       after = sint (index (Inventory (snd r)) p)
   in after \<le> before \<and>
      sint (index (Inventory (run m ds)) p) \<le> before \<and>
      (after \<noteq> before \<longrightarrow>
         after = before - 1 \<and> c = CallDispenseTicket \<and> fst r = None \<and>
         (CallSelectTicket p, None) \<in> set (call_log m0 cs) \<and>
         (\<forall>t. (CallSelectTicket t, None) \<in> set (call_log m0 cs) \<longrightarrow> t = p))"
proof -
  define m where "m = run m0 cs"
  have inv: "transaction_inv m (call_log m0 cs)"
    unfolding m_def using idle stock by (rule inv_fresh)
  have step: "sint (index (Inventory (snd (call m' c'))) p) \<le> sint (index (Inventory m') p)"
    if "transaction_inv m' l" for m' :: "'f TicketMachine" and c' l
  proof (cases "c' = CallDispenseTicket \<and> State m' = MoneyReceivedState \<and> p = CurrentTicket m'")
    case True
    with that have "0 < sint (index (Inventory m') p)"
      by (simp add: transaction_inv_def)
    then have "sint (index (Inventory m') p - 1) = sint (index (Inventory m') p) - 1"
      by (rule sint_dec)
    with True show ?thesis
      unfolding call_Inventory by simp
  next
    case False
    then have "index (Inventory (snd (call m' c'))) p = index (Inventory m') p"
      unfolding call_Inventory by (simp only: if_False)
    then show ?thesis by simp
  qed
  have many: "sint (index (Inventory (run m ds)) p) \<le> sint (index (Inventory m) p)"
  proof (induction ds rule: rev_induct)
    case Nil
    show ?case by simp
  next
    case (snoc d ds)
    have "transaction_inv (run m0 (cs @ ds)) (call_log m0 (cs @ ds))"
      using idle stock by (rule inv_fresh)
    then have "transaction_inv (run m ds) (call_log m0 (cs @ ds))"
      by (simp add: run_append m_def)
    from step [OF this, of d] snoc.IH show ?case
      by (simp add: run_append)
  qed
  have change: "sint (index (Inventory (snd (call m c))) p) = sint (index (Inventory m) p) - 1 \<and>
      c = CallDispenseTicket \<and> fst (call m c) = None \<and>
      (CallSelectTicket p, None) \<in> set (call_log m0 cs) \<and>
      (\<forall>t. (CallSelectTicket t, None) \<in> set (call_log m0 cs) \<longrightarrow> t = p)"
    if neq: "sint (index (Inventory (snd (call m c))) p) \<noteq> sint (index (Inventory m) p)"
  proof -
    from neq have c: "c = CallDispenseTicket" and s: "State m = MoneyReceivedState"
      and p: "p = CurrentTicket m"
      unfolding call_Inventory by (simp_all split: if_splits)
    from inv s p have pos: "0 < sint (index (Inventory m) p)"
      and sel: "\<forall>t. (CallSelectTicket t, None) \<in> set (call_log m0 cs) \<longleftrightarrow> t = p"
      by (simp_all add: transaction_inv_def)
    from pos have "sint (index (Inventory m) p - 1) = sint (index (Inventory m) p) - 1"
      by (rule sint_dec)
    with c s p have "sint (index (Inventory (snd (call m c))) p) = sint (index (Inventory m) p) - 1"
      unfolding call_Inventory by simp
    moreover from c s have "fst (call m c) = None"
      by (simp add: tm_defs Let_def)
    ultimately show ?thesis
      using c sel by simp
  qed
  from step [OF inv, of c] many change show ?thesis
    unfolding Let_def m_def [symmetric] by blast
qed

text \<open>
  On \<open>NewTicketMachine\<close>, the dispense of a paid metro ticket: from 10 to 9, after
  \<open>SelectTicket("metro")\<close>.
\<close>

theorem Inventory_decreases_by_dispense_only_witness:
  "State NewTicketMachine = IdleState \<and>
   sint (index (Inventory (snd (call
       (run NewTicketMachine [CallSelectTicket ''metro'', CallInsertMoney 300])
       CallDispenseTicket))) ''metro'')
     \<noteq> sint (index (Inventory
       (run NewTicketMachine [CallSelectTicket ''metro'', CallInsertMoney 300])) ''metro'') \<and>
   sint (index (Inventory (snd (call
       (run NewTicketMachine [CallSelectTicket ''metro'', CallInsertMoney 300])
       CallDispenseTicket))) ''metro'')
     = 10 - 1 \<and>
   fst (call (run NewTicketMachine [CallSelectTicket ''metro'', CallInsertMoney 300])
       CallDispenseTicket) = None \<and>
   (CallSelectTicket ''metro'', None)
     \<in> set (call_log NewTicketMachine [CallSelectTicket ''metro'', CallInsertMoney 300])"
proof -
  let ?cs = "[CallSelectTicket ''metro'', CallInsertMoney 300]"
  let ?m = "run NewTicketMachine ?cs"
  let ?after = "sint (index (Inventory (snd (call ?m CallDispenseTicket))) ''metro'')"
  let ?before = "sint (index (Inventory ?m) ''metro'')"
  have idle: "State NewTicketMachine = IdleState"
    by (simp add: NewTicketMachine_def)
  have b: "?before = 10"
    by (simp add: tm_defs index_def NewTicketMachine_def Let_def)
  have h: "?after \<noteq> ?before"
    by (simp add: tm_defs index_def NewTicketMachine_def Let_def)
  from Inventory_decreases_by_dispense_only
    [OF idle refl, of ?cs CallDispenseTicket "''metro''" "[]"]
  have "?after \<noteq> ?before \<longrightarrow>
         ?after = ?before - 1 \<and> CallDispenseTicket = (CallDispenseTicket :: real Call) \<and>
         fst (call ?m CallDispenseTicket) = None \<and>
         (CallSelectTicket ''metro'', None) \<in> set (call_log NewTicketMachine ?cs) \<and>
         (\<forall>t. (CallSelectTicket t, None) \<in> set (call_log NewTicketMachine ?cs) \<longrightarrow> t = ''metro'')"
    unfolding Let_def by (rule conjunct2 [THEN conjunct2])
  with h b idle show ?thesis
    by (simp only: simp_thms)
qed

text \<open>
  Claim C9. In every machine that a sequence of calls reaches from a new one, no
  count is negative. What keeps it so: a \<open>SelectTicket\<close> returns \<open>nil\<close> only for a
  ticket type whose count is positive; the count of the selected ticket stays
  positive for as long as the machine waits for money or has received it; a call
  that changes the inventory is a \<open>DispenseTicket\<close> that returned \<open>nil\<close>, and what it
  changes is the count of the selected ticket, which it decrements; and at most one
  \<open>DispenseTicket\<close> of the run has returned \<open>nil\<close>.
\<close>

theorem Inventory_nonnegative:
  fixes m0 :: "('f::{plus,ord,zero}) TicketMachine"
  assumes idle: "State m0 = IdleState"
    and stock: "Inventory m0 = Inventory NewTicketMachine"
  shows "let m = run m0 cs in
     0 \<le> sint (index (Inventory m) p) \<and>
     (fst (SelectTicket m ticketType) = None \<longrightarrow>
        0 < sint (index (Inventory m) ticketType)) \<and>
     (State m = WaitingForMoneyState \<or> State m = MoneyReceivedState \<longrightarrow>
        0 < sint (index (Inventory m) (CurrentTicket m))) \<and>
     (Inventory (snd (call m c)) \<noteq> Inventory m \<longrightarrow>
        c = CallDispenseTicket \<and> fst (call m c) = None \<and>
        Inventory (snd (call m c)) =
          (Inventory m)(CurrentTicket m \<mapsto> index (Inventory m) (CurrentTicket m) - 1) \<and>
        sint (index (Inventory (snd (call m c))) (CurrentTicket m))
          = sint (index (Inventory m) (CurrentTicket m)) - 1) \<and>
     count_list (call_log m0 cs) (CallDispenseTicket, None) \<le> 1"
proof -
  define m where "m = run m0 cs"
  have inv: "transaction_inv m (call_log m0 cs)"
    unfolding m_def using idle stock by (rule inv_fresh)
  then have "0 \<le> sint (index (Inventory m) p)"
    by (simp add: transaction_inv_def)
  moreover have "0 < sint (index (Inventory m) ticketType)"
    if "fst (SelectTicket m ticketType) = None"
    using that by (cases "State m") (simp_all add: tm_defs split: if_splits)
  moreover have pos: "0 < sint (index (Inventory m) (CurrentTicket m))"
    if "State m = WaitingForMoneyState \<or> State m = MoneyReceivedState"
    using that inv by (simp add: transaction_inv_def)
  moreover have "c = CallDispenseTicket \<and> fst (call m c) = None \<and>
        Inventory (snd (call m c)) =
          (Inventory m)(CurrentTicket m \<mapsto> index (Inventory m) (CurrentTicket m) - 1) \<and>
        sint (index (Inventory (snd (call m c))) (CurrentTicket m))
          = sint (index (Inventory m) (CurrentTicket m)) - 1"
    if neq: "Inventory (snd (call m c)) \<noteq> Inventory m"
  proof -
    from neq have c: "c = CallDispenseTicket" and s: "State m = MoneyReceivedState"
      unfolding call_Inventory_map by (simp_all split: if_splits)
    from s have "0 < sint (index (Inventory m) (CurrentTicket m))"
      by (simp add: pos)
    then have "sint (index (Inventory m) (CurrentTicket m) - 1)
        = sint (index (Inventory m) (CurrentTicket m)) - 1"
      by (rule sint_dec)
    with c s show ?thesis
      by (simp add: tm_defs Let_def index_upd)
  qed
  moreover from inv have "count_list (call_log m0 cs) (CallDispenseTicket, None) \<le> 1"
    by (simp add: transaction_inv_def)
  ultimately show ?thesis
    unfolding Let_def m_def [symmetric] by blast
qed

text \<open>
  On \<open>NewTicketMachine\<close>: a metro ticket can be selected, of which there are 10; once
  a train ticket is paid there are 5 of it; the dispense changes the inventory, and
  4 are left.
\<close>

theorem Inventory_nonnegative_witness:
  "State NewTicketMachine = IdleState \<and>
   fst (SelectTicket NewTicketMachine ''metro'') = None \<and>
   0 < sint (index (Inventory NewTicketMachine) ''metro'') \<and>
   State (run NewTicketMachine [CallSelectTicket ''train'', CallInsertMoney 1000])
     = MoneyReceivedState \<and>
   0 < sint (index
     (Inventory (run NewTicketMachine [CallSelectTicket ''train'', CallInsertMoney 1000]))
     (CurrentTicket (run NewTicketMachine [CallSelectTicket ''train'', CallInsertMoney 1000]))) \<and>
   Inventory (snd (call
       (run NewTicketMachine [CallSelectTicket ''train'', CallInsertMoney 1000])
       CallDispenseTicket))
     \<noteq> Inventory (run NewTicketMachine [CallSelectTicket ''train'', CallInsertMoney 1000]) \<and>
   fst (call (run NewTicketMachine [CallSelectTicket ''train'', CallInsertMoney 1000])
       CallDispenseTicket) = None \<and>
   0 \<le> sint (index
     (Inventory (run NewTicketMachine
        [CallSelectTicket ''train'', CallInsertMoney 1000, CallDispenseTicket]))
     ''train'')"
proof -
  let ?cs = "[CallSelectTicket ''train'', CallInsertMoney 1000]"
  let ?m = "run NewTicketMachine ?cs"
  have idle: "State NewTicketMachine = IdleState"
    by (simp add: NewTicketMachine_def)
  note fresh = Inventory_nonnegative [OF idle refl, unfolded Let_def]
  have s: "fst (SelectTicket NewTicketMachine ''metro'') = None"
    by (simp add: tm_defs index_def NewTicketMachine_def Let_def)
  have h: "State ?m = MoneyReceivedState"
    by (simp add: tm_defs index_def NewTicketMachine_def Let_def)
  have i: "Inventory ?m = [''metro'' \<mapsto> 10, ''bus'' \<mapsto> 15, ''train'' \<mapsto> 5]"
    and t: "CurrentTicket ?m = ''train''"
    by (simp_all add: tm_defs index_def NewTicketMachine_def Let_def)
  have "Inventory (snd (call ?m CallDispenseTicket)) ''train'' \<noteq> Inventory ?m ''train''"
    unfolding call_Inventory_map i t using h by (simp add: index_def)
  then have n: "Inventory (snd (call ?m CallDispenseTicket)) \<noteq> Inventory ?m"
    by metis
  from fresh [of "[]" "''metro''" "''metro''" CallCancel] s
  have "0 < sint (index (Inventory NewTicketMachine) ''metro'')"
    by simp
  moreover from fresh [of ?cs "''train''" "''train''" CallDispenseTicket] h
  have "0 < sint (index (Inventory ?m) (CurrentTicket ?m))"
    by blast
  moreover from fresh [of ?cs "''train''" "''train''" CallDispenseTicket] n
  have "fst (call ?m CallDispenseTicket) = None"
    by blast
  moreover from fresh
      [of "[CallSelectTicket ''train'', CallInsertMoney 1000, CallDispenseTicket]"
        "''train''" "''train''" CallCancel]
  have "0 \<le> sint (index
     (Inventory (run NewTicketMachine
        [CallSelectTicket ''train'', CallInsertMoney 1000, CallDispenseTicket]))
     ''train'')"
    by (rule conjunct1)
  ultimately show ?thesis
    using idle s h n by blast
qed

end
